theory Spec2Isabelle
  imports Complex_Main
begin

section \<open>Digiplay Gaming SDK: a shallow embedding of \<open>digiplay_gaming_sdk.py\<close>\<close>

text \<open>
  The module is embedded class by class. Python dictionaries are insertion-ordered
  association lists; dictionary objects live in an explicit store, because
  \<open>sign_transaction\<close> assigns into the dictionary it is given and hands the same object
  back. Everything a coroutine does to the outside world (a POST, a sleep, a fetch, a
  call of the user's callback) is recorded in a trace. What the logger writes is not
  part of the model; an f-string built for it is, where building it can raise.
\<close>

subsection \<open>Values, dictionaries and the object store\<close>

datatype pyval =
    PStr string
  | PFloat real
  | PInt int
  | PRef nat

type_synonym pydict = "(string \<times> pyval) list"

text \<open>\<open>d[k] = v\<close>: an existing key keeps its position, a new key goes to the end.\<close>

fun setitem :: "string \<Rightarrow> pyval \<Rightarrow> pydict \<Rightarrow> pydict" where
  "setitem k v [] = [(k, v)]"
| "setitem k v ((k', v') # d) =
     (if k' = k then (k', v) # d else (k', v') # setitem k v d)"

text \<open>\<open>d.get(k)\<close>: the value stored under a key, if any.\<close>

definition getitem :: "pydict \<Rightarrow> string \<Rightarrow> pyval option" where
  "getitem d k = map_of d k"

text \<open>
  The store is the list of all dictionary objects created so far; a reference is an
  index into it. A dictionary display \<open>{...}\<close> creates a new object.
\<close>

type_synonym heap = "pydict list"

definition alloc :: "pydict \<Rightarrow> heap \<Rightarrow> nat \<times> heap" where
  "alloc d h = (length h, h @ [d])"

definition deref :: "heap \<Rightarrow> nat \<Rightarrow> pydict option" where
  "deref h r = (if r < length h then Some (h ! r) else None)"

text \<open>
  An exception object: its class, its message, and the exception it was raised from
  or while handling (\<open>__cause__\<close> / \<open>__context__\<close>), if any.
\<close>

datatype pyexc = PyExc (exc_type: string) (exc_msg: string) (exc_cause: "pyexc option")

text \<open>\<open>int(x)\<close> on a float truncates towards zero.\<close>

definition py_int :: "real \<Rightarrow> int" where
  "py_int x = (if 0 \<le> x then \<lfloor>x\<rfloor> else \<lceil>x\<rceil>)"

subsection \<open>Global configuration\<close>

record Config =
  DIGIBYTE_API_URL :: string
  NETWORK :: string
  RETRY_ATTEMPTS :: int
  RETRY_DELAY :: int
  EVENT_POLL_INTERVAL :: int

definition default_config :: Config where
  "default_config =
     \<lparr> DIGIBYTE_API_URL = ''https://api.digibyte.io'',
       NETWORK = ''mainnet'',
       RETRY_ATTEMPTS = 3,
       RETRY_DELAY = 3,
       EVENT_POLL_INTERVAL = 10 \<rparr>"

subsection \<open>Wallet\<close>

record Wallet =
  private_key :: string
  address :: string

definition create_new_wallet :: "string \<times> string" where
  "create_new_wallet = (''securely_generated_private_key'', ''D8SampleAddress1234567890'')"

definition generate_address_from_key :: "string \<Rightarrow> string" where
  "generate_address_from_key pk = ''D8DerivedAddressFromKey''"

text \<open>
  \<open>Wallet.__init__\<close>. The test \<open>if private_key:\<close> is Python truthiness: \<open>None\<close> and the
  empty string both take the \<open>else\<close> branch. No statement of the \<open>try\<close> body raises.
\<close>

definition Wallet_init :: "string option \<Rightarrow> Wallet" where
  "Wallet_init pk =
     (case pk of
        None \<Rightarrow> (case create_new_wallet of (k, a) \<Rightarrow> \<lparr> private_key = k, address = a \<rparr>)
      | Some s \<Rightarrow>
          (if s \<noteq> []
           then \<lparr> private_key = s, address = generate_address_from_key s \<rparr>
           else (case create_new_wallet of (k, a) \<Rightarrow> \<lparr> private_key = k, address = a \<rparr>)))"

subsection \<open>TransactionManager\<close>

record TransactionManager =
  tx_wallet :: Wallet

text \<open>
  \<open>create_transaction\<close>. \<open>clock\<close> is the reading of \<open>time.time()\<close>. The body builds a
  dictionary and returns it; there is no check of the arguments and no statement that
  raises, so the \<open>except\<close> branch is never entered. (The f-string for the log formats
  strings, floats and a timestamp that comes from a float: all of these format.)
\<close>

definition default_fee :: real where
  "default_fee = 0.001"

definition create_transaction ::
  "TransactionManager \<Rightarrow> string \<Rightarrow> real \<Rightarrow> real \<Rightarrow> real \<Rightarrow> heap \<Rightarrow> (pyexc + nat) \<times> heap" where
  "create_transaction self to_address amount fee clock h =
     (case alloc [(''from'', PStr (address (tx_wallet self))),
                  (''to'', PStr to_address),
                  (''amount'', PFloat amount),
                  (''fee'', PFloat fee),
                  (''timestamp'', PInt (py_int clock))] h of
        (transaction, h') \<Rightarrow> (Inr transaction, h'))"

text \<open>
  \<open>sign_transaction\<close> assigns the key \<open>signature\<close> in the dictionary it was given and
  returns that same reference. A reference always denotes an object of the store; the
  second case is there only to make the function total.
\<close>

definition sign_transaction :: "nat \<Rightarrow> heap \<Rightarrow> (pyexc + nat) \<times> heap" where
  "sign_transaction transaction h =
     (case deref h transaction of
        Some d \<Rightarrow>
          (Inr transaction,
           h[transaction := setitem ''signature'' (PStr ''signed_with_private_key'') d])
      | None \<Rightarrow> (Inr transaction, h))"

text \<open>
  \<open>broadcast_transaction\<close>. \<open>endpoint attempt\<close> is the outcome of the \<open>try\<close> body of the
  given attempt: \<open>Inl e\<close> when any statement in it raises \<open>e\<close> (connection error,
  time-out, \<open>raise_for_status\<close>, unparseable body), \<open>Inr data\<close> when \<open>response.json()\<close>
  returns \<open>data\<close>. The trace records each POST and each \<open>asyncio.sleep\<close>.
\<close>

datatype net_io = Post string nat | Sleep int

definition py_range :: "int \<Rightarrow> nat list" where
  "py_range n = [0..<nat n]"

definition broadcast_url :: "Config \<Rightarrow> string" where
  "broadcast_url cfg = DIGIBYTE_API_URL cfg @ ''/broadcast''"

definition broadcast_failed :: pyexc where
  "broadcast_failed = PyExc ''Exception'' ''Transaction broadcast failed.'' None"

fun broadcast_loop ::
  "Config \<Rightarrow> (nat \<Rightarrow> pyexc + 'r) \<Rightarrow> nat \<Rightarrow> nat list \<Rightarrow> (pyexc + 'r) \<times> net_io list" where
  "broadcast_loop cfg endpoint signed_transaction [] = (Inl broadcast_failed, [])"
| "broadcast_loop cfg endpoint signed_transaction (attempt # rest) =
     (case endpoint attempt of
        Inr data \<Rightarrow> (Inr data, [Post (broadcast_url cfg) signed_transaction])
      | Inl e \<Rightarrow>
          (case broadcast_loop cfg endpoint signed_transaction rest of
             (res, tr) \<Rightarrow>
               (res, Post (broadcast_url cfg) signed_transaction # Sleep (RETRY_DELAY cfg) # tr)))"

definition broadcast_transaction ::
  "Config \<Rightarrow> (nat \<Rightarrow> pyexc + 'r) \<Rightarrow> nat \<Rightarrow> (pyexc + 'r) \<times> net_io list" where
  "broadcast_transaction cfg endpoint signed_transaction =
     broadcast_loop cfg endpoint signed_transaction (py_range (RETRY_ATTEMPTS cfg))"

text \<open>What the trace of a broadcast contains.\<close>

fun is_post :: "net_io \<Rightarrow> bool" where
  "is_post (Post u b) = True"
| "is_post (Sleep d) = False"

definition attempts :: "net_io list \<Rightarrow> nat" where
  "attempts tr = length (filter is_post tr)"

definition delays :: "net_io list \<Rightarrow> int list" where
  "delays tr = concat (map (\<lambda>x. case x of Sleep d \<Rightarrow> [d] | Post u b \<Rightarrow> []) tr)"

subsection \<open>Formatting a record for the log\<close>

text \<open>
  The constructors of \<open>TokenManager\<close> pass an f-string holding the new record to
  \<open>logger.debug\<close>, inside their \<open>try\<close>; the f-string is built whatever the logging
  level, and building it formats every value of the record. Strings and floats always
  format. An \<open>int\<close> formats when it has at most 4300 decimal digits; for a longer one
  CPython raises \<open>ValueError\<close> (the limit \<open>sys.int_info.default_max_str_digits\<close>). A
  dictionary inside a dictionary is formatted in turn, and one that is already being
  formatted is printed as \<open>{...}\<close>.
\<close>

definition int_max_str_digits :: nat where
  "int_max_str_digits = 4300"

definition int_str_ok :: "int \<Rightarrow> bool" where
  "int_str_ok i = (\<bar>i\<bar> < 10 ^ int_max_str_digits)"

definition int_str_error :: pyexc where
  "int_str_error =
     PyExc ''ValueError''
       ''Exceeds the limit (4300 digits) for integer string conversion; use sys.set_int_max_str_digits() to increase the limit''
       None"

text \<open>
  \<open>repr_ok n h stack v\<close>: formatting the value \<open>v\<close> raises nothing. \<open>stack\<close> holds the
  dictionaries being formatted. \<open>n\<close> bounds the nesting; each level puts one more
  dictionary of the store on the stack, so the number of dictionaries not yet on it is
  enough (\<open>repr_ok_fuel\<close> below).
\<close>

fun repr_ok :: "nat \<Rightarrow> heap \<Rightarrow> nat list \<Rightarrow> pyval \<Rightarrow> bool" where
  "repr_ok n h stack (PStr s) = True"
| "repr_ok n h stack (PFloat x) = True"
| "repr_ok n h stack (PInt i) = int_str_ok i"
| "repr_ok 0 h stack (PRef r) = True"
| "repr_ok (Suc n) h stack (PRef r) =
     (if r \<in> set stack then True
      else (case deref h r of
              None \<Rightarrow> True
            | Some d \<Rightarrow> list_all (\<lambda>kv. repr_ok n h (r # stack) (snd kv)) d))"

definition dict_str_ok :: "heap \<Rightarrow> nat \<Rightarrow> bool" where
  "dict_str_ok h r = repr_ok (length h) h [] (PRef r)"

subsection \<open>TokenManager\<close>

record TokenManager =
  tk_wallet :: Wallet

text \<open>
  \<open>create_token\<close>. There is no check of the arguments. The record is built, then
  formatted for the log: of its values only \<open>total_supply\<close> can fail to format (the
  others are strings and a timestamp that comes from a float, which has at most 309
  digits). The \<open>except\<close> clause raises the \<open>ValueError\<close> again.
\<close>

definition create_token ::
  "TokenManager \<Rightarrow> string \<Rightarrow> int \<Rightarrow> real \<Rightarrow> heap \<Rightarrow> (pyexc + nat) \<times> heap" where
  "create_token self token_name total_supply clock h =
     (case alloc [(''issuer'', PStr (address (tk_wallet self))),
                  (''token_name'', PStr token_name),
                  (''total_supply'', PInt total_supply),
                  (''timestamp'', PInt (py_int clock))] h of
        (token_data, h') \<Rightarrow>
          (if int_str_ok total_supply then (Inr token_data, h')
           else (Inl int_str_error, h')))"

text \<open>
  \<open>transfer_token\<close>. Again no check of the arguments. Formatting the new record
  formats the token record inside it, as it stands in the store, and the amount.
\<close>

definition transfer_token ::
  "TokenManager \<Rightarrow> nat \<Rightarrow> string \<Rightarrow> int \<Rightarrow> real \<Rightarrow> heap \<Rightarrow> (pyexc + nat) \<times> heap" where
  "transfer_token self token to_address amount clock h =
     (case alloc [(''token'', PRef token),
                  (''from'', PStr (address (tk_wallet self))),
                  (''to'', PStr to_address),
                  (''amount'', PInt amount),
                  (''timestamp'', PInt (py_int clock))] h of
        (transfer_data, h') \<Rightarrow>
          (if dict_str_ok h token \<and> int_str_ok amount then (Inr transfer_data, h')
           else (Inl int_str_error, h')))"

subsection \<open>BlockchainEventListener\<close>

text \<open>
  The callback returns \<open>None\<close> when it returns normally and \<open>Some e\<close> when it raises.
\<close>

record 'e Listener =
  callback :: "'e \<Rightarrow> pyexc option"
  running :: bool

definition Listener_init :: "('e \<Rightarrow> pyexc option) \<Rightarrow> 'e Listener" where
  "Listener_init cb = \<lparr> callback = cb, running = False \<rparr>"

definition stop_listening :: "'e Listener \<Rightarrow> 'e Listener" where
  "stop_listening self = self\<lparr> running := False \<rparr>"

text \<open>The placeholder fetch of the module: every cycle gets the empty list.\<close>

definition get_blockchain_events :: "nat \<Rightarrow> pyexc + 'e list" where
  "get_blockchain_events k = Inr []"

datatype 'e poll_io = Fetch | Callback 'e | PollSleep int

text \<open>
  \<open>for event in events: self.callback(event)\<close>: a callback that raises ends the
  \<open>for\<close> loop, and the \<open>except\<close> clause of the cycle swallows the exception.
\<close>

fun dispatch :: "('e \<Rightarrow> pyexc option) \<Rightarrow> 'e list \<Rightarrow> 'e poll_io list" where
  "dispatch cb [] = []"
| "dispatch cb (event # events) =
     Callback event # (case cb event of None \<Rightarrow> dispatch cb events | Some e \<Rightarrow> [])"

text \<open>One pass through the body of the \<open>while\<close> loop: fetch, dispatch, sleep.\<close>

definition cycle ::
  "Config \<Rightarrow> (nat \<Rightarrow> pyexc + 'e list) \<Rightarrow> ('e \<Rightarrow> pyexc option) \<Rightarrow> nat \<Rightarrow> 'e poll_io list" where
  "cycle cfg fetch cb k =
     Fetch # (case fetch k of Inl e \<Rightarrow> [] | Inr events \<Rightarrow> dispatch cb events)
       @ [PollSleep (EVENT_POLL_INTERVAL cfg)]"

text \<open>
  The \<open>while self.running\<close> loop. The coroutine gives up control only in
  \<open>asyncio.sleep\<close>; \<open>stops k\<close> says whether another task calls \<open>stop_listening\<close> during
  the sleep of cycle \<open>k\<close>. \<open>fetch k\<close> is the outcome of \<open>_get_blockchain_events\<close> in cycle
  \<open>k\<close>. The loop need not end, so it runs on fuel: \<open>None\<close> means the fuel ran out
  before the loop was left.
\<close>

fun listen_loop ::
  "nat \<Rightarrow> Config \<Rightarrow> (nat \<Rightarrow> pyexc + 'e list) \<Rightarrow> (nat \<Rightarrow> bool) \<Rightarrow> nat \<Rightarrow> 'e Listener
     \<Rightarrow> ('e Listener \<times> 'e poll_io list) option" where
  "listen_loop 0 cfg fetch stops k self = None"
| "listen_loop (Suc fuel) cfg fetch stops k self =
     (if \<not> running self then Some (self, [])
      else
        (case listen_loop fuel cfg fetch stops (Suc k)
                (if stops k then stop_listening self else self) of
           None \<Rightarrow> None
         | Some (self', tr) \<Rightarrow> Some (self', cycle cfg fetch (callback self) k @ tr)))"

definition start_listening ::
  "nat \<Rightarrow> Config \<Rightarrow> (nat \<Rightarrow> pyexc + 'e list) \<Rightarrow> (nat \<Rightarrow> bool) \<Rightarrow> 'e Listener
     \<Rightarrow> ('e Listener \<times> 'e poll_io list) option" where
  "start_listening fuel cfg fetch stops self =
     listen_loop fuel cfg fetch stops 0 (self\<lparr> running := True \<rparr>)"

text \<open>How many fetches a trace of the listener contains.\<close>

fun is_fetch :: "'e poll_io \<Rightarrow> bool" where
  "is_fetch Fetch = True"
| "is_fetch (Callback e) = False"
| "is_fetch (PollSleep d) = False"

definition fetches :: "'e poll_io list \<Rightarrow> nat" where
  "fetches tr = length (filter is_fetch tr)"

section \<open>Properties\<close>

subsection \<open>Dictionaries and the broadcast loop\<close>

lemma getitem_setitem_same: "getitem (setitem k v d) k = Some v"
  by (induction d) (auto simp: getitem_def)

lemma getitem_setitem_other: "k' \<noteq> k \<Longrightarrow> getitem (setitem k v d) k' = getitem d k'"
  by (induction d) (auto simp: getitem_def)

lemma broadcast_loop_all_fail:
  "\<forall>k\<in>set xs. isl (endpoint k) \<Longrightarrow>
   broadcast_loop cfg endpoint tx xs =
     (Inl broadcast_failed,
      concat (map (\<lambda>k. [Post (broadcast_url cfg) tx, Sleep (RETRY_DELAY cfg)]) xs))"
  by (induction xs) (auto split: sum.splits)

lemma broadcast_loop_first_success:
  "\<forall>k\<in>set xs. isl (endpoint k) \<Longrightarrow> endpoint n = Inr ack \<Longrightarrow>
   broadcast_loop cfg endpoint tx (xs @ n # ys) =
     (Inr ack,
      concat (map (\<lambda>k. [Post (broadcast_url cfg) tx, Sleep (RETRY_DELAY cfg)]) xs)
        @ [Post (broadcast_url cfg) tx])"
  by (induction xs) (auto split: sum.splits)

lemma attempts_retries:
  "attempts (concat (map (\<lambda>k. [Post u b, Sleep d]) xs) @ tr) = length xs + attempts tr"
  by (induction xs) (auto simp: attempts_def)

lemma delays_retries:
  "delays (concat (map (\<lambda>k. [Post u b, Sleep d]) xs) @ tr) = replicate (length xs) d @ delays tr"
  by (induction xs) (auto simp: delays_def)

subsection \<open>Wallet\<close>

text \<open>
  C9 (as amended). For every non-empty private key string the wallet keeps the key and
  its address is the constant \<open>D8DerivedAddressFromKey\<close>, whatever the key, so two
  wallets built from different non-empty keys have the same address. A wallet created
  with no key has address \<open>D8SampleAddress1234567890\<close> and private key
  \<open>securely_generated_private_key\<close>, and so has a wallet created with the empty string.
\<close>

theorem wallet_fixed_addresses:
  "s \<noteq> [] \<Longrightarrow> t \<noteq> [] \<Longrightarrow>
   address (Wallet_init (Some s)) = ''D8DerivedAddressFromKey'' \<and>
   private_key (Wallet_init (Some s)) = s \<and>
   address (Wallet_init (Some s)) = address (Wallet_init (Some t)) \<and>
   Wallet_init None =
     \<lparr> private_key = ''securely_generated_private_key'', address = ''D8SampleAddress1234567890'' \<rparr> \<and>
   Wallet_init (Some []) = Wallet_init None"
  by (simp add: Wallet_init_def generate_address_from_key_def create_new_wallet_def)

text \<open>Two different keys, \<open>k1\<close> and \<open>k2\<close>.\<close>

theorem wallet_fixed_addresses_witness:
  "''k1'' \<noteq> [] \<and> ''k2'' \<noteq> [] \<and>
   address (Wallet_init (Some ''k1'')) = ''D8DerivedAddressFromKey'' \<and>
   address (Wallet_init (Some ''k1'')) = address (Wallet_init (Some ''k2''))"
  using wallet_fixed_addresses [of "''k1''" "''k2''"] by auto

text \<open>
  C9 as stated fails for the empty string: it is a supplied key string, it is falsy,
  and the wallet gets the sample address instead of the derived one.
\<close>

theorem wallet_empty_key_counterexample:
  "address (Wallet_init (Some '''')) \<noteq> ''D8DerivedAddressFromKey'' \<and>
   address (Wallet_init (Some '''')) = ''D8SampleAddress1234567890''"
  by (simp add: Wallet_init_def create_new_wallet_def)

subsection \<open>Broadcasting\<close>

text \<open>
  C5. With \<open>RETRY_ATTEMPTS = 0\<close> the \<open>for\<close> loop has no iteration:
  \<open>broadcast_transaction\<close> raises its exhaustion exception at once, and the trace is
  empty: no POST and no sleep.
\<close>

theorem broadcast_zero_attempts:
  "RETRY_ATTEMPTS cfg = 0 \<Longrightarrow>
   broadcast_transaction cfg endpoint signed_transaction =
     (Inl (PyExc ''Exception'' ''Transaction broadcast failed.'' None), [])"
  by (simp add: broadcast_transaction_def py_range_def broadcast_failed_def)

text \<open>An endpoint that would accept at once is not even asked.\<close>

theorem broadcast_zero_attempts_witness:
  "RETRY_ATTEMPTS (default_config\<lparr> RETRY_ATTEMPTS := 0 \<rparr>) = 0 \<and>
   broadcast_transaction (default_config\<lparr> RETRY_ATTEMPTS := 0 \<rparr>) (\<lambda>k. Inr (PStr ''ok'')) 0 =
     (Inl (PyExc ''Exception'' ''Transaction broadcast failed.'' None), [])"
  using broadcast_zero_attempts
    [of "default_config\<lparr> RETRY_ATTEMPTS := 0 \<rparr>" "\<lambda>k. Inr (PStr ''ok'')" 0]
  by simp

lemma retries_replicate:
  "concat (map (\<lambda>k. [Post u b, Sleep d]) xs) = concat (replicate (length xs) [Post u b, Sleep d])"
  by (induction xs) auto

lemma py_range_Suc: "py_range (int N + 1) = [0..<N] @ [N]"
  by (simp add: py_range_def nat_add_distrib)

lemma last_retries:
  "0 < n \<Longrightarrow> last (concat (replicate n [Post u b, Sleep d])) = Sleep d"
  by (induction n) auto

text \<open>
  C3. If the first \<open>N\<close> attempts fail, attempt \<open>N + 1\<close> succeeds with acknowledgment
  \<open>ack\<close>, and \<open>RETRY_ATTEMPTS = N + 1\<close>, then \<open>broadcast_transaction\<close> returns \<open>ack\<close>. Its
  trace is \<open>N\<close> times a POST followed by a sleep of \<open>RETRY_DELAY\<close>, and then one last
  POST with nothing after it: \<open>N + 1\<close> attempts, \<open>N\<close> delays, each delay between two
  attempts.
\<close>

theorem broadcast_succeeds_after_failures:
  "\<forall>k<N. isl (endpoint k) \<Longrightarrow> endpoint N = Inr ack \<Longrightarrow> RETRY_ATTEMPTS cfg = int N + 1 \<Longrightarrow>
   broadcast_transaction cfg endpoint signed_transaction =
     (Inr ack,
      concat (replicate N [Post (broadcast_url cfg) signed_transaction, Sleep (RETRY_DELAY cfg)])
        @ [Post (broadcast_url cfg) signed_transaction]) \<and>
   attempts (snd (broadcast_transaction cfg endpoint signed_transaction)) = N + 1 \<and>
   delays (snd (broadcast_transaction cfg endpoint signed_transaction)) =
     replicate N (RETRY_DELAY cfg)"
proof -
  assume fails: "\<forall>k<N. isl (endpoint k)" and ok: "endpoint N = Inr ack"
    and n: "RETRY_ATTEMPTS cfg = int N + 1"
  let ?u = "broadcast_url cfg" and ?d = "RETRY_DELAY cfg"
  let ?retries = "concat (map (\<lambda>k. [Post ?u signed_transaction, Sleep ?d]) [0..<N])"
  from fails have "\<forall>k\<in>set [0..<N]. isl (endpoint k)" by simp
  from broadcast_loop_first_success [OF this ok, of cfg signed_transaction "[]"]
  have run: "broadcast_transaction cfg endpoint signed_transaction =
      (Inr ack, ?retries @ [Post ?u signed_transaction])"
    by (simp add: broadcast_transaction_def n py_range_Suc)
  have a: "attempts (?retries @ [Post ?u signed_transaction]) = N + 1"
    by (simp add: attempts_retries) (simp add: attempts_def)
  have d: "delays (?retries @ [Post ?u signed_transaction]) = replicate N ?d"
    by (simp add: delays_retries) (simp add: delays_def)
  have r: "?retries = concat (replicate N [Post ?u signed_transaction, Sleep ?d])"
    using retries_replicate [of ?u signed_transaction ?d "[0..<N]"] by simp
  show ?thesis
    using a d by (simp add: run r)
qed

text \<open>Two time-outs, then the endpoint accepts; three attempts are configured.\<close>

theorem broadcast_succeeds_after_failures_witness:
  "isl ((\<lambda>k. if k < 2 then Inl (PyExc ''TimeoutError'' '''' None) else Inr (PStr ''txid'')) (0::nat)) \<and>
   isl ((\<lambda>k. if k < 2 then Inl (PyExc ''TimeoutError'' '''' None) else Inr (PStr ''txid'')) (1::nat)) \<and>
   (\<lambda>k. if k < 2 then Inl (PyExc ''TimeoutError'' '''' None) else Inr (PStr ''txid'')) (2::nat) =
     Inr (PStr ''txid'') \<and>
   RETRY_ATTEMPTS default_config = int 2 + 1 \<and>
   broadcast_transaction default_config
       (\<lambda>k. if k < 2 then Inl (PyExc ''TimeoutError'' '''' None) else Inr (PStr ''txid'')) 7 =
     (Inr (PStr ''txid''),
      [Post ''https://api.digibyte.io/broadcast'' 7, Sleep 3,
       Post ''https://api.digibyte.io/broadcast'' 7, Sleep 3,
       Post ''https://api.digibyte.io/broadcast'' 7])"
  using broadcast_succeeds_after_failures
    [of 2 "\<lambda>k. if k < 2 then Inl (PyExc ''TimeoutError'' '''' None) else Inr (PStr ''txid'')"
        "PStr ''txid''" default_config 7]
  by (simp add: default_config_def broadcast_url_def numeral_2_eq_2)

text \<open>
  C4 (as amended). If every attempt fails and \<open>RETRY_ATTEMPTS \<ge> 0\<close>,
  \<open>broadcast_transaction\<close> makes exactly \<open>RETRY_ATTEMPTS\<close> attempts and then raises
  \<open>Exception("Transaction broadcast failed.")\<close>: always this same exception, with
  no cause attached, whatever the errors of the attempts were.
\<close>

theorem broadcast_exhausted:
  "\<forall>k. isl (endpoint k) \<Longrightarrow> 0 \<le> RETRY_ATTEMPTS cfg \<Longrightarrow>
   fst (broadcast_transaction cfg endpoint signed_transaction) =
     Inl (PyExc ''Exception'' ''Transaction broadcast failed.'' None) \<and>
   int (attempts (snd (broadcast_transaction cfg endpoint signed_transaction))) =
     RETRY_ATTEMPTS cfg"
proof -
  assume fails: "\<forall>k. isl (endpoint k)" and n: "0 \<le> RETRY_ATTEMPTS cfg"
  from fails have "\<forall>k\<in>set (py_range (RETRY_ATTEMPTS cfg)). isl (endpoint k)" by simp
  from broadcast_loop_all_fail [OF this, of cfg signed_transaction]
  have run: "broadcast_transaction cfg endpoint signed_transaction =
      (Inl broadcast_failed,
       concat (map (\<lambda>k. [Post (broadcast_url cfg) signed_transaction, Sleep (RETRY_DELAY cfg)])
         (py_range (RETRY_ATTEMPTS cfg))))"
    by (simp add: broadcast_transaction_def)
  have "attempts (snd (broadcast_transaction cfg endpoint signed_transaction)) =
      length (py_range (RETRY_ATTEMPTS cfg))"
    using attempts_retries
      [of "broadcast_url cfg" signed_transaction "RETRY_DELAY cfg" "py_range (RETRY_ATTEMPTS cfg)" "[]"]
    by (simp add: run attempts_def)
  with n show ?thesis
    by (simp add: run broadcast_failed_def py_range_def)
qed

text \<open>The default configuration against an endpoint that always times out.\<close>

theorem broadcast_exhausted_witness:
  "(\<forall>k::nat. isl (Inl (PyExc ''TimeoutError'' ''timed out'' None) :: pyexc + pyval)) \<and>
   0 \<le> RETRY_ATTEMPTS default_config \<and>
   fst (broadcast_transaction default_config
          (\<lambda>k. Inl (PyExc ''TimeoutError'' ''timed out'' None) :: pyexc + pyval) 0) =
     Inl (PyExc ''Exception'' ''Transaction broadcast failed.'' None) \<and>
   attempts (snd (broadcast_transaction default_config
          (\<lambda>k. Inl (PyExc ''TimeoutError'' ''timed out'' None) :: pyexc + pyval) 0)) = 3"
  using broadcast_exhausted
    [of "\<lambda>k. Inl (PyExc ''TimeoutError'' ''timed out'' None) :: pyexc + pyval" default_config 0]
  by (simp add: default_config_def)

text \<open>
  C4 as stated fails: after three time-outs the exception that comes out is the fixed
  \<open>Exception("Transaction broadcast failed.")\<close>; the time-out of the last attempt is
  not attached to it.
\<close>

theorem broadcast_exhausted_drops_cause_counterexample:
  "fst (broadcast_transaction default_config
          (\<lambda>k. Inl (PyExc ''TimeoutError'' ''timed out'' None) :: pyexc + pyval) 0) =
     Inl (PyExc ''Exception'' ''Transaction broadcast failed.'' None) \<and>
   exc_cause (projl (fst (broadcast_transaction default_config
          (\<lambda>k. Inl (PyExc ''TimeoutError'' ''timed out'' None) :: pyexc + pyval) 0))) \<noteq>
     Some (PyExc ''TimeoutError'' ''timed out'' None)"
  by (simp add: broadcast_transaction_def py_range_def default_config_def broadcast_failed_def
      upt_rec [of 0] upt_rec [of 1] upt_rec [of 2] upt_rec [of 3] eval_nat_numeral)

text \<open>
  C10. If every attempt fails and \<open>RETRY_ATTEMPTS \<ge> 0\<close>, the trace of
  \<open>broadcast_transaction\<close> is \<open>RETRY_ATTEMPTS\<close> times a POST followed by a sleep of
  \<open>RETRY_DELAY\<close>: one delay after each failed attempt, the last attempt included, so
  the trace ends with a sleep before the exception is raised.
\<close>

theorem broadcast_exhausted_delays:
  "\<forall>k. isl (endpoint k) \<Longrightarrow> 0 \<le> RETRY_ATTEMPTS cfg \<Longrightarrow>
   snd (broadcast_transaction cfg endpoint signed_transaction) =
     concat (replicate (nat (RETRY_ATTEMPTS cfg))
       [Post (broadcast_url cfg) signed_transaction, Sleep (RETRY_DELAY cfg)]) \<and>
   delays (snd (broadcast_transaction cfg endpoint signed_transaction)) =
     replicate (nat (RETRY_ATTEMPTS cfg)) (RETRY_DELAY cfg) \<and>
   int (length (delays (snd (broadcast_transaction cfg endpoint signed_transaction)))) =
     RETRY_ATTEMPTS cfg \<and>
   (0 < RETRY_ATTEMPTS cfg \<longrightarrow>
      last (snd (broadcast_transaction cfg endpoint signed_transaction)) = Sleep (RETRY_DELAY cfg))"
proof -
  assume fails: "\<forall>k. isl (endpoint k)" and n: "0 \<le> RETRY_ATTEMPTS cfg"
  let ?u = "broadcast_url cfg" and ?d = "RETRY_DELAY cfg" and ?xs = "py_range (RETRY_ATTEMPTS cfg)"
  from fails have "\<forall>k\<in>set ?xs. isl (endpoint k)" by simp
  from broadcast_loop_all_fail [OF this, of cfg signed_transaction]
  have run: "snd (broadcast_transaction cfg endpoint signed_transaction) =
      concat (map (\<lambda>k. [Post ?u signed_transaction, Sleep ?d]) ?xs)"
    by (simp add: broadcast_transaction_def)
  have len: "length ?xs = nat (RETRY_ATTEMPTS cfg)"
    by (simp add: py_range_def)
  have tr: "snd (broadcast_transaction cfg endpoint signed_transaction) =
      concat (replicate (nat (RETRY_ATTEMPTS cfg)) [Post ?u signed_transaction, Sleep ?d])"
    using retries_replicate [of ?u signed_transaction ?d ?xs] by (simp add: run len)
  have dl: "delays (snd (broadcast_transaction cfg endpoint signed_transaction)) =
      replicate (nat (RETRY_ATTEMPTS cfg)) ?d"
    using delays_retries [of ?u signed_transaction ?d ?xs "[]"]
    by (simp add: run len delays_def)
  have la: "0 < RETRY_ATTEMPTS cfg \<longrightarrow>
      last (snd (broadcast_transaction cfg endpoint signed_transaction)) = Sleep ?d"
    using last_retries [of "nat (RETRY_ATTEMPTS cfg)" ?u signed_transaction ?d]
    by (simp add: tr)
  from n tr dl la show ?thesis by simp
qed

text \<open>Three failed attempts under the default configuration: three sleeps of 3 seconds.\<close>

theorem broadcast_exhausted_delays_witness:
  "(\<forall>k::nat. isl (Inl (PyExc ''ClientError'' ''refused'' None) :: pyexc + pyval)) \<and>
   0 \<le> RETRY_ATTEMPTS default_config \<and> 0 < RETRY_ATTEMPTS default_config \<and>
   snd (broadcast_transaction default_config
          (\<lambda>k. Inl (PyExc ''ClientError'' ''refused'' None) :: pyexc + pyval) 5) =
     [Post ''https://api.digibyte.io/broadcast'' 5, Sleep 3,
      Post ''https://api.digibyte.io/broadcast'' 5, Sleep 3,
      Post ''https://api.digibyte.io/broadcast'' 5, Sleep 3] \<and>
   delays (snd (broadcast_transaction default_config
          (\<lambda>k. Inl (PyExc ''ClientError'' ''refused'' None) :: pyexc + pyval) 5)) = [3, 3, 3] \<and>
   last (snd (broadcast_transaction default_config
          (\<lambda>k. Inl (PyExc ''ClientError'' ''refused'' None) :: pyexc + pyval) 5)) = Sleep 3"
  using broadcast_exhausted_delays
    [of "\<lambda>k. Inl (PyExc ''ClientError'' ''refused'' None) :: pyexc + pyval" default_config 5]
  by (simp add: default_config_def broadcast_url_def numeral_3_eq_3 delays_def)

subsection \<open>Building and signing transactions\<close>

text \<open>
  C1 (as amended). \<open>create_transaction\<close> does not check its arguments and never fails:
  for every recipient (the empty string included), every amount and every fee
  (negative ones included) it returns a reference to a new record. In particular it
  never fails on an input that satisfies the constraints.
\<close>

theorem create_transaction_never_fails:
  "fst (create_transaction self to_address amount fee clock h) = Inr (length h) \<and>
   \<not> isl (fst (create_transaction self to_address amount fee clock h))"
  by (simp add: create_transaction_def alloc_def)

text \<open>The payment of the module's example: a valid input, and no failure.\<close>

theorem create_transaction_never_fails_witness:
  "fst (create_transaction \<lparr> tx_wallet = Wallet_init None \<rparr>
          ''D8RecipientAddress0987654321'' 0.1 0.001 1700000000 []) = Inr 0"
  using create_transaction_never_fails
    [of "\<lparr> tx_wallet = Wallet_init None \<rparr>" "''D8RecipientAddress0987654321''"
        "0.1" "0.001" 1700000000 "[]"]
  by simp

text \<open>
  C1 as stated fails: with an empty recipient, a negative amount and a negative fee the
  call does not fail; it returns the record, which holds these very values.
\<close>

theorem create_transaction_unvalidated_counterexample:
  "create_transaction \<lparr> tx_wallet = Wallet_init None \<rparr> '''' (- 1) (- 1) 1700000000 [] =
     (Inr 0,
      [[(''from'', PStr ''D8SampleAddress1234567890''),
        (''to'', PStr ''''),
        (''amount'', PFloat (- 1)),
        (''fee'', PFloat (- 1)),
        (''timestamp'', PInt 1700000000)]])"
  by (simp add: create_transaction_def alloc_def Wallet_init_def create_new_wallet_def py_int_def)

text \<open>
  C8. For a non-empty recipient, an amount \<open>\<ge> 0\<close> and a fee \<open>\<ge> 0\<close>,
  \<open>create_transaction\<close> returns a record that has no \<open>signature\<close> key and whose \<open>from\<close>
  is the address of the wallet.
\<close>

theorem create_transaction_unsigned_from_wallet:
  "to_address \<noteq> [] \<Longrightarrow> 0 \<le> amount \<Longrightarrow> 0 \<le> fee \<Longrightarrow>
   (case create_transaction self to_address amount fee clock h of
      (Inr transaction, h') \<Rightarrow>
        (case deref h' transaction of
           Some d \<Rightarrow>
             getitem d ''signature'' = None \<and>
             getitem d ''from'' = Some (PStr (address (tx_wallet self)))
         | None \<Rightarrow> False)
    | (Inl e, h') \<Rightarrow> False)"
  by (simp add: create_transaction_def alloc_def deref_def getitem_def)

text \<open>The payment of the module's example, from a wallet created without a key.\<close>

theorem create_transaction_unsigned_from_wallet_witness:
  "''D8RecipientAddress0987654321'' \<noteq> [] \<and> (0::real) \<le> 0.1 \<and> (0::real) \<le> 0.001 \<and>
   (case create_transaction \<lparr> tx_wallet = Wallet_init None \<rparr>
           ''D8RecipientAddress0987654321'' 0.1 0.001 1700000000 [] of
      (Inr transaction, h') \<Rightarrow>
        (case deref h' transaction of
           Some d \<Rightarrow>
             getitem d ''signature'' = None \<and>
             getitem d ''from'' = Some (PStr ''D8SampleAddress1234567890'')
         | None \<Rightarrow> False)
    | (Inl e, h') \<Rightarrow> False)"
  using create_transaction_unsigned_from_wallet
    [of "''D8RecipientAddress0987654321''" "0.1" "0.001" "\<lparr> tx_wallet = Wallet_init None \<rparr>"
        1700000000 "[]"]
  by (simp add: Wallet_init_def create_new_wallet_def create_transaction_def alloc_def
      deref_def getitem_def)

text \<open>
  C2 (as amended). \<open>sign_transaction\<close> works in place: it returns the reference it was
  given, and after the call that record (the input and the result are the same
  object) has \<open>signature = "signed_with_private_key"\<close>. Every other key of the record
  has the value it had before, and no other record of the store is changed.
\<close>

theorem sign_transaction_in_place:
  "transaction < length h \<Longrightarrow>
   fst (sign_transaction transaction h) = Inr transaction \<and>
   length (snd (sign_transaction transaction h)) = length h \<and>
   getitem (snd (sign_transaction transaction h) ! transaction) ''signature'' =
     Some (PStr ''signed_with_private_key'') \<and>
   (\<forall>k. k \<noteq> ''signature'' \<longrightarrow>
      getitem (snd (sign_transaction transaction h) ! transaction) k =
        getitem (h ! transaction) k) \<and>
   (\<forall>r. r < length h \<longrightarrow> r \<noteq> transaction \<longrightarrow>
      snd (sign_transaction transaction h) ! r = h ! r)"
  by (simp add: sign_transaction_def deref_def getitem_setitem_same getitem_setitem_other)

text \<open>A store of two unsigned records; the second one is signed.\<close>

theorem sign_transaction_in_place_witness:
  "(1::nat) < length [[(''from'', PStr ''a''), (''to'', PStr ''b'')],
                      [(''from'', PStr ''c''), (''to'', PStr ''d'')]] \<and>
   sign_transaction 1 [[(''from'', PStr ''a''), (''to'', PStr ''b'')],
                       [(''from'', PStr ''c''), (''to'', PStr ''d'')]] =
     (Inr 1,
      [[(''from'', PStr ''a''), (''to'', PStr ''b'')],
       [(''from'', PStr ''c''), (''to'', PStr ''d''),
        (''signature'', PStr ''signed_with_private_key'')]])"
  using sign_transaction_in_place
    [of 1 "[[(''from'', PStr ''a''), (''to'', PStr ''b'')],
            [(''from'', PStr ''c''), (''to'', PStr ''d'')]]"]
  by (simp add: sign_transaction_def deref_def)

text \<open>
  C2 as stated fails: the record built for the example payment has no signature before
  the call, and that same record, not a copy of it, has one after the call.
\<close>

theorem sign_transaction_mutates_input_counterexample:
  "getitem
     ([[(''from'', PStr ''D8SampleAddress1234567890''),
        (''to'', PStr ''D8RecipientAddress0987654321''),
        (''amount'', PFloat 0.1),
        (''fee'', PFloat 0.001),
        (''timestamp'', PInt 1700000000)]] ! 0) ''signature'' = None \<and>
   getitem
     (snd (sign_transaction 0
        [[(''from'', PStr ''D8SampleAddress1234567890''),
          (''to'', PStr ''D8RecipientAddress0987654321''),
          (''amount'', PFloat 0.1),
          (''fee'', PFloat 0.001),
          (''timestamp'', PInt 1700000000)]]) ! 0) ''signature'' =
     Some (PStr ''signed_with_private_key'') \<and>
   fst (sign_transaction 0
        [[(''from'', PStr ''D8SampleAddress1234567890''),
          (''to'', PStr ''D8RecipientAddress0987654321''),
          (''amount'', PFloat 0.1),
          (''fee'', PFloat 0.001),
          (''timestamp'', PInt 1700000000)]]) = Inr 0"
  by (simp add: sign_transaction_def deref_def getitem_def)

subsection \<open>Tokens\<close>


text \<open>The first integer that does not format is \<open>10 ^ 4300\<close>, and so is its negative.\<close>

lemma int_str_ok_limit:
  "\<not> int_str_ok (10 ^ int_max_str_digits)" "\<not> int_str_ok (- (10 ^ int_max_str_digits))"
  "int_str_ok (10 ^ int_max_str_digits - 1)"
  by (simp_all add: int_str_ok_def)

text \<open>
  More fuel than the number of dictionaries of the store that are not on the stack
  changes nothing.
\<close>

lemma repr_ok_fuel:
  "card ({..<length h} - set stack) \<le> n \<Longrightarrow> repr_ok (Suc n) h stack v = repr_ok n h stack v"
proof (induction n arbitrary: stack v)
  case 0
  then have all: "\<forall>r<length h. r \<in> set stack"
    by auto
  show ?case
  proof (cases v)
    case (PRef r)
    with all show ?thesis
      by (auto simp: deref_def)
  qed simp_all
next
  case (Suc n)
  show ?case
  proof (cases v)
    case (PRef r)
    show ?thesis
    proof (cases "r \<in> set stack \<or> \<not> r < length h")
      case True
      with PRef show ?thesis
        by (auto simp: deref_def)
    next
      case False
      then have new: "r \<notin> set stack" and valid: "r < length h"
        by simp_all
      have "{..<length h} - set (r # stack) = ({..<length h} - set stack) - {r}"
        by auto
      moreover have "r \<in> {..<length h} - set stack"
        using new valid by simp
      ultimately have "card ({..<length h} - set (r # stack)) \<le> n"
        using Suc.prems by (simp add: card_Diff_singleton)
      then have "\<And>w. repr_ok (Suc n) h (r # stack) w = repr_ok n h (r # stack) w"
        by (rule Suc.IH)
      with PRef new valid show ?thesis
        by (simp add: deref_def)
    qed
  qed simp_all
qed

text \<open>When the record does not format, the call raises the \<open>ValueError\<close>.\<close>

lemma create_token_unformattable:
  "\<not> int_str_ok total_supply \<Longrightarrow>
   fst (create_token self token_name total_supply clock h) = Inl int_str_error"
  by (simp add: create_token_def alloc_def)

lemma transfer_token_unformattable:
  "\<not> (dict_str_ok h token \<and> int_str_ok amount) \<Longrightarrow>
   fst (transfer_token self token to_address amount clock h) = Inl int_str_error"
  by (simp add: transfer_token_def alloc_def)




subsection \<open>The event listener\<close>

lemma fetches_dispatch: "fetches (dispatch cb events) = 0"
  by (induction events) (auto simp: fetches_def split: option.splits)

lemma fetches_append: "fetches (xs @ ys) = fetches xs + fetches ys"
  by (simp add: fetches_def)

lemma fetches_cycle: "fetches (cycle cfg fetch cb k) = 1"
proof -
  have "fetches (case fetch k of Inl e \<Rightarrow> [] | Inr events \<Rightarrow> dispatch cb events) = 0"
    by (cases "fetch k") (simp_all add: fetches_dispatch, simp add: fetches_def)
  then show ?thesis
    unfolding cycle_def by (simp add: fetches_def)
qed

lemma fetches_cycles: "fetches (concat (map (cycle cfg fetch cb) ks)) = length ks"
  by (induction ks) (simp_all add: fetches_append fetches_cycle, simp add: fetches_def)

lemma listen_loop_stopped:
  "\<not> running self \<Longrightarrow> listen_loop (Suc fuel) cfg fetch stops j self = Some (self, [])"
  by simp

text \<open>
  From the top of the loop in cycle \<open>j\<close>, with the flag set: if the first call of
  \<open>stop_listening\<close> comes during the sleep of cycle \<open>j + n\<close>, the loop runs the cycles
  \<open>j, \<dots>, j + n\<close> and then leaves.
\<close>

lemma listen_loop_until_stop:
  "running self \<Longrightarrow> stops (j + n) \<Longrightarrow> \<forall>i<n. \<not> stops (j + i) \<Longrightarrow> n + 2 \<le> fuel \<Longrightarrow>
   listen_loop fuel cfg fetch stops j self =
     Some (stop_listening self, concat (map (cycle cfg fetch (callback self)) [j..<Suc (j + n)]))"
proof (induction n arbitrary: j fuel)
  case 0
  then obtain f where fuel: "fuel = Suc (Suc f)"
    by (metis add_0 le_Suc_ex numeral_2_eq_2 plus_nat.simps(2))
  have "\<not> running (stop_listening self)"
    by (simp add: stop_listening_def)
  then have "listen_loop (Suc f) cfg fetch stops (Suc j) (stop_listening self) =
      Some (stop_listening self, [])"
    by (rule listen_loop_stopped)
  with 0 show ?case
    by (simp add: fuel)
next
  case (Suc n)
  then obtain f where fuel: "fuel = Suc f" and f: "n + 2 \<le> f"
    by (metis Suc_le_D Suc_le_mono add_Suc)
  from Suc.prems have now: "\<not> stops j"
    by (metis add.right_neutral zero_less_Suc)
  from Suc.prems have later: "stops (Suc j + n)" "\<forall>i<n. \<not> stops (Suc j + i)"
    by auto
  from Suc.IH [OF Suc.prems(1) later f]
  have "listen_loop f cfg fetch stops (Suc j) self =
      Some (stop_listening self,
        concat (map (cycle cfg fetch (callback self)) [Suc j..<Suc (Suc j + n)]))" .
  moreover have "[j..<Suc (j + Suc n)] = j # [Suc j..<Suc (j + Suc n)]"
    by (rule upt_conv_Cons) simp
  ultimately show ?case
    using Suc.prems(1) now by (simp add: fuel del: upt_Suc)
qed

text \<open>
  C7. If another task calls \<open>stop_listening\<close> during the sleep of cycle \<open>k\<close> (and none
  did before), then \<open>start_listening\<close> returns as soon as the fuel covers the cycles
  run. Its trace is the cycles \<open>0, \<dots>, k\<close> and nothing more: \<open>k + 1\<close> fetches, the sleep
  of cycle \<open>k\<close> as the last event, no fetch and no callback after it. And whenever the
  flag is false at the top of the loop, the loop is left with an empty trace.
\<close>

theorem stop_during_sleep_ends_polling:
  "stops k \<Longrightarrow> \<forall>j<k. \<not> stops j \<Longrightarrow> k + 2 \<le> fuel \<Longrightarrow>
   start_listening fuel cfg fetch stops self =
     Some (self\<lparr> running := False \<rparr>,
           concat (map (cycle cfg fetch (callback self)) [0..<Suc k])) \<and>
   fetches (concat (map (cycle cfg fetch (callback self)) [0..<Suc k])) = Suc k \<and>
   last (concat (map (cycle cfg fetch (callback self)) [0..<Suc k])) =
     PollSleep (EVENT_POLL_INTERVAL cfg) \<and>
   (\<forall>l n j. \<not> running l \<longrightarrow> listen_loop (Suc n) cfg fetch stops j l = Some (l, []))"
proof -
  assume stop: "stops k" and before: "\<forall>j<k. \<not> stops j" and enough: "k + 2 \<le> fuel"
  let ?self = "self\<lparr> running := True \<rparr>"
  have "listen_loop fuel cfg fetch stops 0 ?self =
      Some (stop_listening ?self, concat (map (cycle cfg fetch (callback ?self)) [0..<Suc (0 + k)]))"
    using stop before enough by (intro listen_loop_until_stop) simp_all
  then have run: "start_listening fuel cfg fetch stops self =
      Some (self\<lparr> running := False \<rparr>,
            concat (map (cycle cfg fetch (callback self)) [0..<Suc k]))"
    by (simp add: start_listening_def stop_listening_def)
  have n: "fetches (concat (map (cycle cfg fetch (callback self)) [0..<Suc k])) = Suc k"
    using fetches_cycles [of cfg fetch "callback self" "[0..<Suc k]"] by simp
  have la: "last (concat (map (cycle cfg fetch (callback self)) [0..<Suc k])) =
      PollSleep (EVENT_POLL_INTERVAL cfg)"
    by (simp add: cycle_def)
  from run n la show ?thesis
    by simp
qed

text \<open>
  The listener of the module, whose fetch always returns the empty list, stopped
  during the sleep of its second cycle: two fetches, two sleeps, and the loop is left.
\<close>

theorem stop_during_sleep_ends_polling_witness:
  "(\<lambda>j::nat. j = 1) 1 \<and> \<not> (\<lambda>j::nat. j = 1) 0 \<and> (1::nat) + 2 \<le> 3 \<and>
   start_listening 3 default_config get_blockchain_events (\<lambda>j. j = 1)
       (Listener_init (\<lambda>e::string. None)) =
     Some (\<lparr> callback = \<lambda>e. None, running = False \<rparr>,
           [Fetch, PollSleep 10, Fetch, PollSleep 10])"
  using stop_during_sleep_ends_polling
    [of "\<lambda>j. j = 1" 1 3 default_config get_blockchain_events "Listener_init (\<lambda>e::string. None)"]
  by (simp add: Listener_init_def cycle_def get_blockchain_events_def default_config_def
      upt_conv_Cons)

end
